theory Spec2Isabelle
  imports Complex_Main "HOL-Library.Word" "HOL-Library.Sublist"
begin

unbundle bit_operations_syntax

section \<open>Face enrolment and verification (features.py)\<close>

text \<open>
  The two functions of \<^verbatim>\<open>features.py\<close> that form the face-identity flow are
  \<^verbatim>\<open>get_face_encoding_from_photo\<close> (the encoder) and \<^verbatim>\<open>recognize_face\<close> (the
  verifier). Both are thin orchestration around two third-party libraries:
  \<^verbatim>\<open>face_recognition\<close> (image decoding, face detection, comparison) and
  \<^verbatim>\<open>numpy\<close> (the array of doubles and its raw byte form).

  Image decoding, face detection and numpy's arithmetic on doubles are opaque here: they
  are the fields of a record that every theorem quantifies over, and nothing is assumed
  about them. What is written out below is the part with a small, documented behaviour:
  the raw byte form read by \<^verbatim>\<open>numpy.frombuffer\<close>, the shapes that numpy's broadcasting
  accepts, and the steps of \<^verbatim>\<open>face_recognition.compare_faces\<close>.
\<close>

subsection \<open>Values\<close>

type_synonym byte = "8 word"
type_synonym bytes = "byte list"

text \<open>A double is kept as its IEEE 754 binary64 bit pattern; an array is a list of them.\<close>

type_synonym float64 = "64 word"
type_synonym ndarray = "float64 list"

text \<open>
  An exception is represented by its text \<^verbatim>\<open>str(e)\<close>, the only thing the two handlers
  of the source read (\<^verbatim>\<open>f"...: {e}"\<close>). Both handlers are \<^verbatim>\<open>except Exception\<close>.
\<close>

type_synonym exn = string

text \<open>
  The module-level flag \<^verbatim>\<open>FACE_RECOGNITION_AVAILABLE\<close> (set once, by whether the import
  succeeded) and the opaque library calls: the two calls of \<^verbatim>\<open>face_recognition\<close> that
  read a photo, and numpy's arithmetic on doubles. \<open>subtract a b\<close> is the binary64 result
  of \<^verbatim>\<open>a - b\<close>, and \<open>linalg_norm row\<close> is the binary64 result of \<^verbatim>\<open>numpy.linalg.norm\<close> on
  one row: the square root of the sum of the squares, every operation rounded, in numpy's
  order of summation.
\<close>

record 'img face_recognition =
  FACE_RECOGNITION_AVAILABLE :: bool
  load_image_file :: "bytes \<Rightarrow> exn + 'img"
  face_encodings :: "'img \<Rightarrow> exn + ndarray list"
  subtract :: "float64 \<Rightarrow> float64 \<Rightarrow> float64"
  linalg_norm :: "float64 list \<Rightarrow> float64"

text \<open>Python's \<^verbatim>\<open>not x\<close> for a value that is \<^verbatim>\<open>None\<close> or a bytes object.\<close>

fun falsy :: "bytes option \<Rightarrow> bool" where
  "falsy None = True"
| "falsy (Some b) = (b = [])"

text \<open>The bytes of an argument that has passed the \<^verbatim>\<open>not x\<close> guard.\<close>

fun content :: "bytes option \<Rightarrow> bytes" where
  "content None = []"
| "content (Some b) = b"

subsection \<open>numpy: the raw byte form of an array of doubles\<close>

text \<open>One item: eight bytes, least significant first (the native order of the platform).\<close>

definition float64_of_bytes :: "bytes \<Rightarrow> float64" where
  "float64_of_bytes bs = foldr (\<lambda>b w. ucast b OR push_bit 8 w) bs 0"

definition bytes_of_float64 :: "float64 \<Rightarrow> bytes" where
  "bytes_of_float64 w = map (\<lambda>i. ucast (drop_bit (8 * i) w)) [0..<8]"

fun items8 :: "bytes \<Rightarrow> bytes list" where
  "items8 (b0 # b1 # b2 # b3 # b4 # b5 # b6 # b7 # rest) =
     [b0, b1, b2, b3, b4, b5, b6, b7] # items8 rest"
| "items8 _ = []"

text \<open>
  \<^verbatim>\<open>numpy.frombuffer(buffer)\<close> at its default \<^verbatim>\<open>dtype=float\<close>: the buffer is read as
  consecutive 8-byte items, with no header and no length; a buffer whose size is not a
  multiple of 8 raises \<^verbatim>\<open>ValueError\<close>.
\<close>

definition np_frombuffer :: "bytes \<Rightarrow> exn + ndarray" where
  "np_frombuffer buffer =
     (if length buffer mod 8 \<noteq> 0
      then Inl ''buffer size must be a multiple of element size''
      else Inr (map float64_of_bytes (items8 buffer)))"

text \<open>
  Modelled from the spec: the serialisation of an embedding at enrolment
  (\<^verbatim>\<open>ndarray.tobytes()\<close> in the registration page, which is not among the sources):
  "a flat buffer of 128 native double-precision floating-point values, no header, no
  length prefix, no version tag".
\<close>

definition tobytes :: "ndarray \<Rightarrow> bytes" where
  "tobytes a = concat (map bytes_of_float64 a)"

subsection \<open>The number a double denotes\<close>

text \<open>
  \<open>None\<close> stands for the patterns that are not a number of the real line (the two
  infinities and the NaNs, exponent field 2047). The value is used to compare a computed
  distance with the tolerance, a comparison that is exact on doubles, and to say which
  numbers the doubles of an example denote. No arithmetic is done on it.
\<close>

definition float64_val :: "float64 \<Rightarrow> real option" where
  "float64_val w =
     (let e = unat (take_bit 11 (drop_bit 52 w));
          f = unat (take_bit 52 w);
          m = (if e = 0 then f else 2 ^ 52 + f)
      in if e = 2047 then None
         else Some ((if bit w 63 then - 1 else 1) * real m * 2 ^ (max e 1) / 2 ^ 1075))"

subsection \<open>face_recognition.compare_faces\<close>

text \<open>\<^verbatim>\<open>str(n)\<close> of a dimension, as it appears in the text of a shape.\<close>

fun decimal :: "nat \<Rightarrow> string" where
  "decimal n =
     (if n < 10 then [''0123456789'' ! n]
      else decimal (n div 10) @ [''0123456789'' ! (n mod 10)])"

text \<open>
  \<^verbatim>\<open>row - face_to_compare\<close> under numpy's broadcasting: two rows of the same length are
  subtracted item by item; a row of length 1 is stretched to the length of the other; any
  other pair of lengths raises \<^verbatim>\<open>ValueError\<close>. \<open>sub\<close> is the subtraction of two doubles.
\<close>

definition broadcast_sub ::
    "(float64 \<Rightarrow> float64 \<Rightarrow> float64) \<Rightarrow> nat \<Rightarrow> ndarray \<Rightarrow> ndarray \<Rightarrow> exn + ndarray" where
  "broadcast_sub sub rows a b =
     (if length a = length b then Inr (map2 sub a b)
      else if length a = 1 then Inr (map (sub (hd a)) b)
      else if length b = 1 then Inr (map (\<lambda>x. sub x (hd b)) a)
      else Inl (''operands could not be broadcast together with shapes ('' @
                decimal rows @ '','' @ decimal (length a) @ '') ('' @
                decimal (length b) @ '',) ''))"

fun sequence :: "(exn + 'a) list \<Rightarrow> exn + 'a list" where
  "sequence [] = Inr []"
| "sequence (Inl e # _) = Inl e"
| "sequence (Inr x # rs) = (case sequence rs of Inl e \<Rightarrow> Inl e | Inr xs \<Rightarrow> Inr (x # xs))"

text \<open>
  \<^verbatim>\<open>face_distance(face_encodings, face_to_compare)\<close>: the empty array for no known
  encodings, else \<^verbatim>\<open>np.linalg.norm(face_encodings - face_to_compare, axis=1)\<close>, one
  distance for each row. The verifier passes a list of exactly one known encoding.
\<close>

definition face_distance ::
    "'img face_recognition \<Rightarrow> ndarray list \<Rightarrow> ndarray \<Rightarrow> exn + float64 list" where
  "face_distance lib known_face_encodings face_to_compare =
     (if length known_face_encodings = 0 then Inr []
      else case sequence (map (\<lambda>row. broadcast_sub (subtract lib) (length known_face_encodings)
                                       row face_to_compare)
                              known_face_encodings) of
             Inl e \<Rightarrow> Inl e
           | Inr rows \<Rightarrow> Inr (map (linalg_norm lib) rows))"

text \<open>
  \<^verbatim>\<open>d <= tolerance\<close> on doubles, for a tolerance that denotes the real \<open>t\<close> (0.5 is a
  double). The comparison does not round. It is false for a NaN and for plus infinity, and
  true for minus infinity.
\<close>

definition float64_le :: "float64 \<Rightarrow> real \<Rightarrow> bool" where
  "float64_le d t =
     (case float64_val d of
        Some x \<Rightarrow> x \<le> t
      | None \<Rightarrow> d = 0xFFF0000000000000)"

text \<open>\<^verbatim>\<open>list(face_distance(...) <= tolerance)\<close>.\<close>

definition compare_faces ::
    "'img face_recognition \<Rightarrow> ndarray list \<Rightarrow> ndarray \<Rightarrow> real \<Rightarrow> exn + bool list" where
  "compare_faces lib known_face_encodings face_encoding_to_check tolerance =
     (case face_distance lib known_face_encodings face_encoding_to_check of
        Inl e \<Rightarrow> Inl e
      | Inr ds \<Rightarrow> Inr (map (\<lambda>d. float64_le d tolerance) ds))"

subsection \<open>The encoder: get_face_encoding_from_photo\<close>

text \<open>The body of the \<^verbatim>\<open>try\<close> block: \<open>Inl\<close> is an exception that leaves it.\<close>

definition encode_try :: "'img face_recognition \<Rightarrow> bytes \<Rightarrow> exn + (ndarray option \<times> string)" where
  "encode_try lib photo_bytes =
     (case load_image_file lib photo_bytes of
        Inl e \<Rightarrow> Inl e
      | Inr img \<Rightarrow>
          (case face_encodings lib img of
             Inl e \<Rightarrow> Inl e
           | Inr encs \<Rightarrow>
               (if length encs > 0
                then Inr (Some (encs ! 0), ''Face encoding generated successfully.'')
                else Inr (None, ''No face found in the uploaded photo.''))))"

definition get_face_encoding_from_photo ::
    "'img face_recognition \<Rightarrow> bytes option \<Rightarrow> ndarray option \<times> string" where
  "get_face_encoding_from_photo lib photo_bytes =
     (if \<not> FACE_RECOGNITION_AVAILABLE lib \<or> falsy photo_bytes
      then (None, ''Face recognition is not available or no photo provided.'')
      else (case encode_try lib (content photo_bytes) of
              Inr r \<Rightarrow> r
            | Inl e \<Rightarrow> (None, ''Error processing photo for face recognition: '' @ e)))"

subsection \<open>The verifier: recognize_face\<close>

definition recognize_try ::
    "'img face_recognition \<Rightarrow> bytes \<Rightarrow> bytes \<Rightarrow> exn + (bool \<times> string)" where
  "recognize_try lib known_face_encoding_bytes current_photo_bytes =
     (case np_frombuffer known_face_encoding_bytes of
        Inl e \<Rightarrow> Inl e
      | Inr known_face_encoding \<Rightarrow>
          (case get_face_encoding_from_photo lib (Some current_photo_bytes) of
             (None, message) \<Rightarrow>
               Inr (False, ''Could not detect face in current photo: '' @ message)
           | (Some current_face_encodings, message) \<Rightarrow>
               (case compare_faces lib [known_face_encoding] current_face_encodings 0.5 of
                  Inl e \<Rightarrow> Inl e
                | Inr matches \<Rightarrow>
                    (case matches of
                       [] \<Rightarrow> Inl ''list index out of range''
                     | m # _ \<Rightarrow>
                         (if m then Inr (True, ''Face recognized successfully.'')
                          else Inr (False, ''Face not recognized. Please try again.''))))))"

definition recognize_face ::
    "'img face_recognition \<Rightarrow> bytes option \<Rightarrow> bytes option \<Rightarrow> bool \<times> string" where
  "recognize_face lib known_face_encoding_bytes current_photo_bytes =
     (if \<not> FACE_RECOGNITION_AVAILABLE lib
      then (False, ''Face recognition is not available.'')
      else if falsy known_face_encoding_bytes
      then (False, ''No registered face data found for this student.'')
      else if falsy current_photo_bytes
      then (False, ''No current photo provided for attendance.'')
      else (case recognize_try lib (content known_face_encoding_bytes)
                                   (content current_photo_bytes) of
              Inr r \<Rightarrow> r
            | Inl e \<Rightarrow> (False, ''Error during face recognition: '' @ e)))"

subsection \<open>The spec's notion of distance\<close>


subsection \<open>Example libraries\<close>

text \<open>
  The doubles 0.0, 0.5, 1.0 and \<^verbatim>\<open>2**-30\<close>, the double nearest to the square root of
  128, a NaN, and the change of sign.
\<close>

definition zero64 :: float64 where
  "zero64 = 0"

definition half64 :: float64 where
  "half64 = 0x3FE0000000000000"

definition one64 :: float64 where
  "one64 = 0x3FF0000000000000"

definition tiny64 :: float64 where
  "tiny64 = 0x3E10000000000000"

definition sqrt128_64 :: float64 where
  "sqrt128_64 = 0x4026A09E667F3BCD"

definition nan64 :: float64 where
  "nan64 = 0x7FF8000000000000"

definition negate :: "float64 \<Rightarrow> float64" where
  "negate x = x XOR 0x8000000000000000"

text \<open>
  A stand-in for numpy's arithmetic that covers the computations of the examples below,
  each with its binary64 result. \<open>x - 0.0\<close> is \<open>x\<close> and \<open>0.0 - x\<close> is \<open>x\<close> with the sign
  changed, both without rounding. The norm of a row of zeros is 0.0. The norm of 128 times
  -1.0 is the double nearest to the square root of 128: the squares and their sum, 128.0,
  are exact. The norm of (-0.5, 0.0, ...) is 0.5, exactly. The norm of
  (-0.5, \<^verbatim>\<open>-2**-30\<close>, 0.0, ...) is 0.5 as well: the squares 0.25 and \<^verbatim>\<open>2**-60\<close> are
  exact, their sum rounds to 0.25 in any order of summation, and the square root of 0.25
  is 0.5. Every other computation gives a NaN here.
\<close>

definition example_subtract :: "float64 \<Rightarrow> float64 \<Rightarrow> float64" where
  "example_subtract a b =
     (if b = zero64 then a
      else if a = zero64 then negate b
      else nan64)"

definition example_norm :: "float64 list \<Rightarrow> float64" where
  "example_norm row =
     (if list_all (\<lambda>x. x = zero64) row then zero64
      else if row = replicate 128 (negate one64) then sqrt128_64
      else if row = negate half64 # replicate 127 zero64 then half64
      else if row = negate half64 # negate tiny64 # replicate 126 zero64 then half64
      else nan64)"

text \<open>
  Three instances of the opaque part, for evaluating the functions on concrete inputs:
  the import failed; every photo decodes and shows the given faces; no photo decodes.
\<close>

definition not_installed :: "unit face_recognition" where
  "not_installed =
     \<lparr>FACE_RECOGNITION_AVAILABLE = False,
      load_image_file = (\<lambda>_. Inl ''name 'face_recognition' is not defined''),
      face_encodings = (\<lambda>_. Inl ''name 'face_recognition' is not defined''),
      subtract = example_subtract,
      linalg_norm = example_norm\<rparr>"

definition detects :: "ndarray list \<Rightarrow> unit face_recognition" where
  "detects encs =
     \<lparr>FACE_RECOGNITION_AVAILABLE = True,
      load_image_file = (\<lambda>_. Inr ()),
      face_encodings = (\<lambda>_. Inr encs),
      subtract = example_subtract,
      linalg_norm = example_norm\<rparr>"

definition undecodable :: "exn \<Rightarrow> unit face_recognition" where
  "undecodable e =
     \<lparr>FACE_RECOGNITION_AVAILABLE = True,
      load_image_file = (\<lambda>_. Inl e),
      face_encodings = (\<lambda>_. Inr []),
      subtract = example_subtract,
      linalg_norm = example_norm\<rparr>"

text \<open>128-dimensional vectors.\<close>

definition zeros128 :: ndarray where
  "zeros128 = replicate 128 zero64"

definition ones128 :: ndarray where
  "ones128 = replicate 128 one64"



section \<open>Properties\<close>

subsection \<open>Auxiliary facts\<close>

lemma upt_8: "[0..<8] = [0, 1, 2, 3, 4, 5, 6, 7]"
  by (simp add: upt_rec)

lemma float64_of_bytes_of_float64: "float64_of_bytes (bytes_of_float64 w) = w"
  unfolding float64_of_bytes_def bytes_of_float64_def upt_8
proof (simp, rule bit_eqI)
  fix n :: nat
  assume "possible_bit TYPE(64 word) n"
  then have n: "n < 64"
    by simp
  then have "n < 8 \<or> (8 \<le> n \<and> n < 16) \<or> (16 \<le> n \<and> n < 24) \<or> (24 \<le> n \<and> n < 32) \<or>
      (32 \<le> n \<and> n < 40) \<or> (40 \<le> n \<and> n < 48) \<or> (48 \<le> n \<and> n < 56) \<or> 56 \<le> n"
    by linarith
  with n show "bit (ucast (ucast w :: byte) OR
            (push_bit 8 (ucast (ucast (drop_bit 8 w) :: byte)) OR
             (push_bit 16 (ucast (ucast (drop_bit 16 w) :: byte)) OR
              (push_bit 24 (ucast (ucast (drop_bit 24 w) :: byte)) OR
               (push_bit 32 (ucast (ucast (drop_bit 32 w) :: byte)) OR
                (push_bit 40 (ucast (ucast (drop_bit 40 w) :: byte)) OR
                 (push_bit 48 (ucast (ucast (drop_bit 48 w) :: byte)) OR
                  push_bit 56 (ucast (ucast (drop_bit 56 w) :: byte)))))))) :: 64 word) n =
          bit w n"
    by (simp add: bit_simps less_diff_conv2 cong: conj_cong) linarith
qed

lemma length_bytes_of_float64: "length (bytes_of_float64 w) = 8"
  by (simp add: bytes_of_float64_def)

lemma items8_append: "length b = 8 \<Longrightarrow> items8 (b @ rest) = b # items8 rest"
  by (auto simp: length_Suc_conv eval_nat_numeral)

lemma length_tobytes: "length (tobytes a) = 8 * length a"
  by (induction a) (simp_all add: tobytes_def length_bytes_of_float64)

lemma items8_tobytes: "items8 (tobytes a) = map bytes_of_float64 a"
  by (induction a) (simp_all add: tobytes_def length_bytes_of_float64 items8_append)

lemma np_frombuffer_tobytes: "np_frombuffer (tobytes a) = Inr a"
  by (simp add: np_frombuffer_def length_tobytes items8_tobytes
      float64_of_bytes_of_float64 comp_def)

lemma tobytes_eq_Nil: "tobytes a = [] \<longleftrightarrow> a = []"
  using length_tobytes [of a] by (cases a) auto

lemma zeros128_not_Nil: "zeros128 \<noteq> []"
  by (simp add: zeros128_def)

lemma length_items8: "length (items8 b) = length b div 8"
  by (induction b rule: items8.induct) simp_all

lemma np_frombuffer_Inl:
  "length b mod 8 \<noteq> 0 \<Longrightarrow>
   np_frombuffer b = Inl ''buffer size must be a multiple of element size''"
  by (simp add: np_frombuffer_def)

lemma compare_faces_one_row:
  "compare_faces lib [known] cur t =
     (case broadcast_sub (subtract lib) 1 known cur of
        Inl e \<Rightarrow> Inl e
      | Inr row \<Rightarrow> Inr [float64_le (linalg_norm lib row) t])"
  by (simp add: compare_faces_def face_distance_def split: sum.splits)


lemma broadcast_sub_one_item: "broadcast_sub sub rows [x] cur = Inr (map (sub x) cur)"
proof (cases "length cur = 1")
  case True
  then obtain c where "cur = [c]"
    by (auto simp: length_Suc_conv)
  then show ?thesis
    by (simp add: broadcast_sub_def)
next
  case False
  then show ?thesis
    by (auto simp: broadcast_sub_def)
qed

lemma broadcast_sub_shape_error:
  assumes "length known \<noteq> length cur" and "length known \<noteq> 1" and "length cur \<noteq> 1"
  shows "broadcast_sub sub rows known cur =
           Inl (''operands could not be broadcast together with shapes ('' @
                decimal rows @ '','' @ decimal (length known) @ '') ('' @
                decimal (length cur) @ '',) '')"
  using assms by (simp add: broadcast_sub_def)


lemma encode_first:
  assumes "FACE_RECOGNITION_AVAILABLE lib" and "photo \<noteq> []"
    and "load_image_file lib photo = Inr img"
    and "face_encodings lib img = Inr (cur # others)"
  shows "get_face_encoding_from_photo lib (Some photo) =
           (Some cur, ''Face encoding generated successfully.'')"
  using assms by (simp add: get_face_encoding_from_photo_def encode_try_def)

text \<open>The verifier on a photo in which a face is detected, for every stored byte string.\<close>

lemma recognize_face_detected:
  assumes "FACE_RECOGNITION_AVAILABLE lib" and "known_bytes \<noteq> []" and "photo \<noteq> []"
    and "load_image_file lib photo = Inr img"
    and "face_encodings lib img = Inr (cur # others)"
  shows "recognize_face lib (Some known_bytes) (Some photo) =
           (case np_frombuffer known_bytes of
              Inl e \<Rightarrow> (False, ''Error during face recognition: '' @ e)
            | Inr known \<Rightarrow>
                (case broadcast_sub (subtract lib) 1 known cur of
                   Inl e \<Rightarrow> (False, ''Error during face recognition: '' @ e)
                 | Inr row \<Rightarrow>
                     if float64_le (linalg_norm lib row) (1 / 2)
                     then (True, ''Face recognized successfully.'')
                     else (False, ''Face not recognized. Please try again.'')))"
proof -
  have enc: "get_face_encoding_from_photo lib (Some photo) =
      (Some cur, ''Face encoding generated successfully.'')"
    using assms(1,3,4,5) by (rule encode_first)
  show ?thesis
    using assms(1,2,3)
    by (simp add: recognize_face_def recognize_try_def enc compare_faces_one_row
        split: sum.splits)
qed

lemma float64_val_zero64: "float64_val zero64 = Some 0"
  by (simp add: float64_val_def zero64_def)

lemma float64_val_one64: "float64_val one64 = Some 1"
  by (simp add: float64_val_def one64_def Let_def)



lemma float64_le_zero64: "float64_le zero64 (1 / 2)"
  by (simp add: float64_le_def float64_val_zero64)


lemma float64_le_sqrt128_64: "\<not> float64_le sqrt128_64 (1 / 2)"
  by (simp add: float64_le_def float64_val_def sqrt128_64_def Let_def)

lemma example_subtract_zero: "example_subtract x zero64 = x"
  by (simp add: example_subtract_def)

lemma example_subtract_from_zero:
  "example_subtract zero64 one64 = negate one64"
  "example_subtract zero64 half64 = negate half64"
  "example_subtract zero64 tiny64 = negate tiny64"
  by (simp_all add: example_subtract_def zero64_def one64_def half64_def tiny64_def)



lemma example_norm_zeros: "example_norm (replicate n zero64) = zero64"
  by (simp add: example_norm_def list_all_iff)

lemma example_norm_ones: "example_norm (replicate 128 (negate one64)) = sqrt128_64"
  by (simp add: example_norm_def list_all_iff negate_def one64_def zero64_def)



lemma detects_simps:
  "FACE_RECOGNITION_AVAILABLE (detects encs) = True"
  "load_image_file (detects encs) photo = Inr ()"
  "face_encodings (detects encs) img = Inr encs"
  "subtract (detects encs) = example_subtract"
  "linalg_norm (detects encs) = example_norm"
  by (simp_all add: detects_def)



lemma np_frombuffer_one_item:
  assumes "length b = 8"
  shows "np_frombuffer b = Inr [float64_of_bytes b]"
proof -
  from assms obtain b0 b1 b2 b3 b4 b5 b6 b7 where "b = [b0, b1, b2, b3, b4, b5, b6, b7]"
    by (auto simp: length_Suc_conv eval_nat_numeral)
  then show ?thesis
    by (simp add: np_frombuffer_def)
qed

lemma float64_of_zero_bytes: "float64_of_bytes [0, 0, 0, 0, 0, 0, 0, 0] = zero64"
  by (simp add: float64_of_bytes_def zero64_def)

subsection \<open>The claims\<close>




text \<open>
  C2. The verifier checks its preconditions in a fixed order and stops at the first that
  fails: capability unavailable, then stored embedding absent or empty, then current photo
  absent or empty. Each of them gives the decision false with its own diagnostic, so a
  student without a stored embedding is never matched.
\<close>

theorem recognize_face_precondition_order:
  "(\<not> FACE_RECOGNITION_AVAILABLE lib \<longrightarrow>
      recognize_face lib known photo = (False, ''Face recognition is not available.'')) \<and>
   (FACE_RECOGNITION_AVAILABLE lib \<and> falsy known \<longrightarrow>
      recognize_face lib known photo =
        (False, ''No registered face data found for this student.'')) \<and>
   (FACE_RECOGNITION_AVAILABLE lib \<and> \<not> falsy known \<and> falsy photo \<longrightarrow>
      recognize_face lib known photo = (False, ''No current photo provided for attendance.'')) \<and>
   (falsy known \<longrightarrow> \<not> fst (recognize_face lib known photo))"
  by (simp add: recognize_face_def)

theorem recognize_face_precondition_order_witness:
  "recognize_face not_installed None None = (False, ''Face recognition is not available.'') \<and>
   recognize_face (detects [zeros128]) (Some []) (Some [1]) =
     (False, ''No registered face data found for this student.'') \<and>
   recognize_face (detects [zeros128]) (Some [1]) None =
     (False, ''No current photo provided for attendance.'') \<and>
   \<not> fst (recognize_face (detects [zeros128]) None (Some [1]))"
  using recognize_face_precondition_order [of not_installed None None]
    recognize_face_precondition_order [of "detects [zeros128]" "Some []" "Some [1]"]
    recognize_face_precondition_order [of "detects [zeros128]" "Some [1]" None]
    recognize_face_precondition_order [of "detects [zeros128]" None "Some [1]"]
  by (simp add: not_installed_def detects_def)




text \<open>
  C4. When the library detects one or more faces in a photo, the encoder returns exactly
  one embedding, the first of the library's list, whatever the number of faces.
\<close>

theorem encode_first_face:
  assumes "FACE_RECOGNITION_AVAILABLE lib" and "photo \<noteq> []"
    and "load_image_file lib photo = Inr img"
    and "face_encodings lib img = Inr encs"
    and "1 \<le> length encs"
  shows "get_face_encoding_from_photo lib (Some photo) =
           (Some (hd encs), ''Face encoding generated successfully.'')"
  using assms by (cases encs) (simp_all add: get_face_encoding_from_photo_def encode_try_def)

theorem encode_first_face_witness:
  "get_face_encoding_from_photo (detects [zeros128, ones128]) (Some [1]) =
     (Some zeros128, ''Face encoding generated successfully.'')"
  using encode_first_face [of "detects [zeros128, ones128]" "[1]" "()" "[zeros128, ones128]"]
  by (simp add: detects_def)

text \<open>
  C5. On a photo in which no face is detected the encoder returns no embedding together
  with the diagnostic "No face found in the uploaded photo."; and it does not raise on
  bytes that fail to decode: the exception of the decoder (or of the detector) is caught
  and returned as no embedding plus a diagnostic that carries the text of the failure.
\<close>

theorem encode_no_face_or_decode_failure:
  assumes "FACE_RECOGNITION_AVAILABLE lib" and "photo \<noteq> []"
  shows "(load_image_file lib photo = Inr img \<and> face_encodings lib img = Inr [] \<longrightarrow>
            get_face_encoding_from_photo lib (Some photo) =
              (None, ''No face found in the uploaded photo.'')) \<and>
         (load_image_file lib photo = Inl e \<longrightarrow>
            get_face_encoding_from_photo lib (Some photo) =
              (None, ''Error processing photo for face recognition: '' @ e)) \<and>
         (load_image_file lib photo = Inr img \<and> face_encodings lib img = Inl e \<longrightarrow>
            get_face_encoding_from_photo lib (Some photo) =
              (None, ''Error processing photo for face recognition: '' @ e))"
  using assms by (simp add: get_face_encoding_from_photo_def encode_try_def)

theorem encode_no_face_or_decode_failure_witness:
  "get_face_encoding_from_photo (detects []) (Some [1]) =
     (None, ''No face found in the uploaded photo.'') \<and>
   get_face_encoding_from_photo (undecodable ''cannot identify image file'') (Some [1]) =
     (None, ''Error processing photo for face recognition: cannot identify image file'')"
  using encode_no_face_or_decode_failure [where lib = "detects []" and photo = "[1]" and img = "()"]
    encode_no_face_or_decode_failure
      [where lib = "undecodable ''cannot identify image file''" and photo = "[1]"
         and e = "''cannot identify image file''"]
  by (simp add: detects_def undecodable_def)

text \<open>
  C6. Round trip of the binary format. Serialising an array of doubles gives exactly eight
  bytes per value and nothing else (no header, no length, no version), and reading those
  bytes back with the verifier's \<^verbatim>\<open>numpy.frombuffer\<close> gives the original array, bit for
  bit; in particular for the 128 values of an embedding, which take 1024 bytes.
\<close>

theorem tobytes_frombuffer_roundtrip:
  "np_frombuffer (tobytes a) = Inr a \<and> length (tobytes a) = 8 * length a"
  by (simp add: np_frombuffer_tobytes length_tobytes)

theorem tobytes_frombuffer_roundtrip_witness:
  "tobytes [one64] = [0, 0, 0, 0, 0, 0, 0xF0, 0x3F] \<and>
   np_frombuffer [0, 0, 0, 0, 0, 0, 0xF0, 0x3F] = Inr [one64] \<and>
   np_frombuffer (tobytes ones128) = Inr ones128 \<and>
   length (tobytes ones128) = 1024"
proof -
  have t: "tobytes [one64] = [0, 0, 0, 0, 0, 0, 0xF0, 0x3F]"
    by (simp add: tobytes_def bytes_of_float64_def upt_8 one64_def)
  show ?thesis
    using tobytes_frombuffer_roundtrip [of "[one64]"] tobytes_frombuffer_roundtrip [of ones128]
    by (simp add: t ones128_def)
qed

text \<open>
  C7. With an absent or empty stored embedding the verifier returns false without calling
  the encoder: its result is the same for every current photo and for every behaviour of
  the library. With an absent or empty current photo it returns false without
  deserialising: its result is the same for every non-empty stored embedding.
\<close>

theorem recognize_face_missing_input_independent:
  assumes "FACE_RECOGNITION_AVAILABLE lib' = FACE_RECOGNITION_AVAILABLE lib"
  shows "(falsy known \<longrightarrow>
            recognize_face lib' known photo' = recognize_face lib known photo \<and>
            \<not> fst (recognize_face lib known photo)) \<and>
         (falsy photo \<and> \<not> falsy known \<and> \<not> falsy known' \<longrightarrow>
            recognize_face lib' known' photo = recognize_face lib known photo \<and>
            \<not> fst (recognize_face lib known photo))"
  using assms by (simp add: recognize_face_def)

theorem recognize_face_missing_input_independent_witness:
  "recognize_face (undecodable ''cannot identify image file'') None (Some [1]) =
     recognize_face (detects [zeros128]) None (Some [2, 3]) \<and>
   \<not> fst (recognize_face (detects [zeros128]) None (Some [2, 3])) \<and>
   recognize_face (detects [ones128]) (Some [1]) None =
     recognize_face (detects [zeros128]) (Some (tobytes zeros128)) None \<and>
   \<not> fst (recognize_face (detects [zeros128]) (Some (tobytes zeros128)) None)"
  using recognize_face_missing_input_independent
      [where lib' = "undecodable ''cannot identify image file''" and lib = "detects [zeros128]"
         and known = None and photo' = "Some [1]" and photo = "Some [2, 3]"]
    recognize_face_missing_input_independent
      [where lib' = "detects [ones128]" and lib = "detects [zeros128]"
         and known = "Some (tobytes zeros128)" and photo = None and known' = "Some [1]"]
  by (simp add: detects_def undecodable_def tobytes_eq_Nil zeros128_not_Nil)

text \<open>
  C8, as the code has it. With the capability available, the verifier called with an
  absent stored embedding and photo bytes returns exactly
  (false, "No registered face data found for this student."), and called with non-empty
  embedding bytes and an absent photo it returns exactly
  (false, "No current photo provided for attendance."). Both messages start with a
  capital letter and end with a full stop.
\<close>

theorem recognize_face_missing_input_messages:
  assumes "FACE_RECOGNITION_AVAILABLE lib"
  shows "recognize_face lib None (Some photo) =
           (False, ''No registered face data found for this student.'') \<and>
         (known \<noteq> [] \<longrightarrow>
            recognize_face lib (Some known) None =
              (False, ''No current photo provided for attendance.''))"
  using assms by (simp add: recognize_face_def)

theorem recognize_face_missing_input_messages_witness:
  "recognize_face (detects [zeros128]) None (Some [1]) =
     (False, ''No registered face data found for this student.'') \<and>
   recognize_face (detects [zeros128]) (Some (tobytes zeros128)) None =
     (False, ''No current photo provided for attendance.'')"
  using recognize_face_missing_input_messages
      [where lib = "detects [zeros128]" and photo = "[1]" and known = "tobytes zeros128"]
  by (simp add: detects_def tobytes_eq_Nil zeros128_not_Nil)

text \<open>
  The strings of the scenario as the claim quotes them (lower case, no full stop) are not
  what the verifier returns.
\<close>

theorem recognize_face_missing_input_messages_counterexample:
  "recognize_face (detects [zeros128]) None (Some [1]) \<noteq>
     (False, ''no registered face data found for this student'') \<and>
   recognize_face (detects [zeros128]) (Some [0, 0, 0, 0, 0, 0, 0, 0]) None \<noteq>
     (False, ''no current photo provided for attendance'')"
  by (simp add: recognize_face_def detects_def)

text \<open>
  C9, as the code has it. Stored bytes whose length is not a multiple of 8 make the
  deserialisation raise, and stored bytes that deserialise to a vector whose dimension is
  neither 1 nor that of the current embedding make the comparison raise; either exception
  is caught and returned as (false, "Error during face recognition: <detail>"). Stored
  bytes of exactly one double are not rejected: the single value is stretched over the
  dimension of the current embedding, and the result is the ordinary decision on the
  distance that the library computes, under the same tolerance.
\<close>

theorem recognize_face_wrong_shape:
  assumes "FACE_RECOGNITION_AVAILABLE lib" and "known \<noteq> []" and "photo \<noteq> []"
  shows "(length known mod 8 \<noteq> 0 \<longrightarrow>
            recognize_face lib (Some known) (Some photo) =
              (False, ''Error during face recognition: '' @
                      ''buffer size must be a multiple of element size'')) \<and>
         (length known mod 8 = 0 \<and>
          load_image_file lib photo = Inr img \<and> face_encodings lib img = Inr (cur # others) \<and>
          length known div 8 \<noteq> length cur \<and> length known div 8 \<noteq> 1 \<and> length cur \<noteq> 1 \<longrightarrow>
            recognize_face lib (Some known) (Some photo) =
              (False, ''Error during face recognition: '' @
                      ''operands could not be broadcast together with shapes (1,'' @
                      decimal (length known div 8) @ '') ('' @ decimal (length cur) @ '',) '')) \<and>
         (length known = 8 \<and>
          load_image_file lib photo = Inr img \<and> face_encodings lib img = Inr (cur # others) \<longrightarrow>
            recognize_face lib (Some known) (Some photo) =
              (if float64_le
                    (linalg_norm lib (map (subtract lib (float64_of_bytes known)) cur)) (1 / 2)
               then (True, ''Face recognized successfully.'')
               else (False, ''Face not recognized. Please try again.'')))"
proof (intro conjI impI)
  assume "length known mod 8 \<noteq> 0"
  then have "np_frombuffer known = Inl ''buffer size must be a multiple of element size''"
    by (rule np_frombuffer_Inl)
  then show "recognize_face lib (Some known) (Some photo) =
      (False, ''Error during face recognition: '' @
              ''buffer size must be a multiple of element size'')"
    using assms by (simp add: recognize_face_def recognize_try_def)
next
  assume a: "length known mod 8 = 0 \<and>
    load_image_file lib photo = Inr img \<and> face_encodings lib img = Inr (cur # others) \<and>
    length known div 8 \<noteq> length cur \<and> length known div 8 \<noteq> 1 \<and> length cur \<noteq> 1"
  define k where "k = map float64_of_bytes (items8 known)"
  have fb: "np_frombuffer known = Inr k" and lk: "length k = length known div 8"
    using a by (simp_all add: np_frombuffer_def k_def length_items8)
  have "broadcast_sub (subtract lib) 1 k cur =
      Inl (''operands could not be broadcast together with shapes ('' @
           decimal 1 @ '','' @ decimal (length k) @ '') ('' @ decimal (length cur) @ '',) '')"
    using a lk by (intro broadcast_sub_shape_error) simp_all
  moreover have "recognize_face lib (Some known) (Some photo) =
      (case np_frombuffer known of
         Inl e \<Rightarrow> (False, ''Error during face recognition: '' @ e)
       | Inr known \<Rightarrow>
           (case broadcast_sub (subtract lib) 1 known cur of
              Inl e \<Rightarrow> (False, ''Error during face recognition: '' @ e)
            | Inr row \<Rightarrow>
                if float64_le (linalg_norm lib row) (1 / 2)
                then (True, ''Face recognized successfully.'')
                else (False, ''Face not recognized. Please try again.'')))"
    using assms a by (intro recognize_face_detected [where img = img and others = others]) simp_all
  ultimately show "recognize_face lib (Some known) (Some photo) =
      (False, ''Error during face recognition: '' @
              ''operands could not be broadcast together with shapes (1,'' @
              decimal (length known div 8) @ '') ('' @ decimal (length cur) @ '',) '')"
    by (simp add: fb lk)
next
  assume a: "length known = 8 \<and>
    load_image_file lib photo = Inr img \<and> face_encodings lib img = Inr (cur # others)"
  have fb: "np_frombuffer known = Inr [float64_of_bytes known]"
    using a by (simp add: np_frombuffer_one_item)
  have "recognize_face lib (Some known) (Some photo) =
      (case np_frombuffer known of
         Inl e \<Rightarrow> (False, ''Error during face recognition: '' @ e)
       | Inr known \<Rightarrow>
           (case broadcast_sub (subtract lib) 1 known cur of
              Inl e \<Rightarrow> (False, ''Error during face recognition: '' @ e)
            | Inr row \<Rightarrow>
                if float64_le (linalg_norm lib row) (1 / 2)
                then (True, ''Face recognized successfully.'')
                else (False, ''Face not recognized. Please try again.'')))"
    using assms a by (intro recognize_face_detected [where img = img and others = others]) simp_all
  then show "recognize_face lib (Some known) (Some photo) =
      (if float64_le
            (linalg_norm lib (map (subtract lib (float64_of_bytes known)) cur)) (1 / 2)
       then (True, ''Face recognized successfully.'')
       else (False, ''Face not recognized. Please try again.''))"
    by (simp add: fb broadcast_sub_one_item)
qed

theorem recognize_face_wrong_shape_witness:
  "recognize_face (detects [zeros128]) (Some [1, 2, 3]) (Some [1]) =
     (False, ''Error during face recognition: '' @
             ''buffer size must be a multiple of element size'') \<and>
   recognize_face (detects [zeros128]) (Some (tobytes [zero64, zero64])) (Some [1]) =
     (False, ''Error during face recognition: '' @
             ''operands could not be broadcast together with shapes (1,2) (128,) '') \<and>
   recognize_face (detects [ones128]) (Some [0, 0, 0, 0, 0, 0, 0, 0]) (Some [1]) =
     (False, ''Face not recognized. Please try again.'')"
proof -
  have b: "tobytes [zero64, zero64] \<noteq> []"
    by (simp add: tobytes_eq_Nil)
  have lt: "length (tobytes [zero64, zero64]) = 16"
    by (simp add: length_tobytes)
  have lz: "length zeros128 = 128"
    by (simp add: zeros128_def)
  have n: "example_norm (map (example_subtract zero64) ones128) = sqrt128_64"
    by (simp add: ones128_def example_subtract_from_zero example_norm_ones)
  show ?thesis
    using recognize_face_wrong_shape
        [where lib = "detects [zeros128]" and known = "[1, 2, 3]" and photo = "[1]"]
      recognize_face_wrong_shape
        [where lib = "detects [zeros128]" and known = "tobytes [zero64, zero64]"
           and photo = "[1]" and img = "()" and cur = zeros128 and others = "[]"]
      recognize_face_wrong_shape
        [where lib = "detects [ones128]" and known = "[0, 0, 0, 0, 0, 0, 0, 0]"
           and photo = "[1]" and img = "()" and cur = ones128 and others = "[]"]
    by (simp add: detects_simps b lt lz float64_of_zero_bytes n float64_le_sqrt128_64)
qed

text \<open>
  Eight zero bytes are the one double 0.0. Against a current embedding of 128 zeros the
  verifier does not report an error: every difference is 0.0 - 0.0, the distance is 0.0,
  and it reports a match.
\<close>

theorem recognize_face_wrong_shape_counterexample:
  "recognize_face (detects [zeros128]) (Some [0, 0, 0, 0, 0, 0, 0, 0]) (Some [1]) =
     (True, ''Face recognized successfully.'')"
proof -
  have f: "np_frombuffer [0, 0, 0, 0, 0, 0, 0, 0] = Inr [zero64]"
    by (simp add: np_frombuffer_one_item float64_of_zero_bytes)
  have n: "example_norm (map (example_subtract zero64) zeros128) = zero64"
    by (simp add: zeros128_def example_subtract_zero example_norm_zeros)
  have "recognize_face (detects [zeros128]) (Some [0, 0, 0, 0, 0, 0, 0, 0]) (Some [1]) =
      (case np_frombuffer [0, 0, 0, 0, 0, 0, 0, 0] of
         Inl e \<Rightarrow> (False, ''Error during face recognition: '' @ e)
       | Inr known \<Rightarrow>
           (case broadcast_sub (subtract (detects [zeros128])) 1 known zeros128 of
              Inl e \<Rightarrow> (False, ''Error during face recognition: '' @ e)
            | Inr row \<Rightarrow>
                if float64_le (linalg_norm (detects [zeros128]) row) (1 / 2)
                then (True, ''Face recognized successfully.'')
                else (False, ''Face not recognized. Please try again.'')))"
    by (rule recognize_face_detected [where img = "()" and others = "[]"])
      (simp_all add: detects_simps)
  then show ?thesis
    by (simp add: f broadcast_sub_one_item detects_simps n float64_le_zero64)
qed

text \<open>
  C10. Called with absent or empty photo bytes, the encoder returns no embedding at once,
  whatever the library would do with the photo, and its diagnostic is the combined
  "Face recognition is not available or no photo provided." The result is the very same
  pair when the capability is unavailable, so the two situations cannot be told apart
  from the result.
\<close>

theorem encode_empty_photo:
  assumes "falsy photo" and "\<not> FACE_RECOGNITION_AVAILABLE lib'"
  shows "get_face_encoding_from_photo lib photo =
           (None, ''Face recognition is not available or no photo provided.'') \<and>
         get_face_encoding_from_photo lib' photo' =
           (None, ''Face recognition is not available or no photo provided.'')"
  using assms by (simp add: get_face_encoding_from_photo_def)

theorem encode_empty_photo_witness:
  "get_face_encoding_from_photo (detects [zeros128]) (Some []) =
     (None, ''Face recognition is not available or no photo provided.'') \<and>
   get_face_encoding_from_photo (detects [zeros128]) None =
     (None, ''Face recognition is not available or no photo provided.'') \<and>
   get_face_encoding_from_photo not_installed (Some [1]) =
     (None, ''Face recognition is not available or no photo provided.'')"
  using encode_empty_photo
      [where photo = "Some []" and lib' = not_installed and lib = "detects [zeros128]"
         and photo' = "Some [1]"]
    encode_empty_photo
      [where photo = None and lib' = not_installed and lib = "detects [zeros128]"
         and photo' = "Some [1]"]
  by (simp add: not_installed_def)

end
